theory Spec2Isabelle
  imports Complex_Main
begin

section \<open>Monthly mortgage and overhead-cost schedules (nlmortgage.py)\<close>

text \<open>
  The module computes per-month sequences from scalar inputs. Python's \<open>float\<close> and
  numpy's \<open>float64\<close> are idealised as \<^typ>\<open>real\<close>: rounding, overflow and the
  non-finite values \<open>inf\<close>/\<open>nan\<close> are outside this model. Python's \<open>int\<close> is
  \<^typ>\<open>int\<close>, a numpy array or a Python list of floats is a \<^typ>\<open>real list\<close>.
  A Python scalar division raises \<open>ZeroDivisionError\<close> on a zero divisor; that is the
  only exception the module can raise in exact arithmetic, and it is a value here.
  The parameter \<open>principal\<close> is written \<open>principal'\<close>, since \<open>principal\<close> is a
  constant of the library.
\<close>

subsection \<open>Constants\<close>

definition INTEREST_DEDUCTIBLE :: real where
  "INTEREST_DEDUCTIBLE = 1 - 0.64"

definition YEARLY_INSURANCE :: real where
  "YEARLY_INSURANCE = 0.0013"

definition YEARLY_VVE :: real where
  "YEARLY_VVE = 0.005"

definition YEARLY_WOZ :: real where
  "YEARLY_WOZ = 0.000577"

subsection \<open>Python and numpy primitives\<close>

datatype py_error = ZeroDivisionError

text \<open>\<open>a / b\<close> on Python scalars.\<close>

definition py_div :: "real \<Rightarrow> real \<Rightarrow> py_error + real" where
  "py_div a b = (if b = 0 then Inl ZeroDivisionError else Inr (a / b))"

text \<open>\<open>range(n)\<close>: empty when \<open>n \<le> 0\<close>.\<close>

definition py_range :: "int \<Rightarrow> nat list" where
  "py_range n = [0..<nat n]"

text \<open>Element-wise numpy arithmetic on arrays of one shape, and scalar broadcasting.\<close>

definition np_add :: "real list \<Rightarrow> real list \<Rightarrow> real list" where
  "np_add xs ys = map2 (+) xs ys"

definition np_sub :: "real list \<Rightarrow> real list \<Rightarrow> real list" where
  "np_sub xs ys = map2 (-) xs ys"

definition np_scale :: "real \<Rightarrow> real list \<Rightarrow> real list" where
  "np_scale c xs = map (\<lambda>x. c * x) xs"

definition np_mul_scalar :: "real list \<Rightarrow> real \<Rightarrow> real list" where
  "np_mul_scalar xs c = map (\<lambda>x. x * c) xs"

definition np_scalar_add :: "real \<Rightarrow> real list \<Rightarrow> real list" where
  "np_scalar_add c xs = map (\<lambda>x. c + x) xs"

definition np_scalar_sub :: "real \<Rightarrow> real list \<Rightarrow> real list" where
  "np_scalar_sub c xs = map (\<lambda>x. c - x) xs"

text \<open>\<open>np.cumsum\<close>: running totals, with the total so far as accumulator.\<close>

fun cumsum_from :: "real \<Rightarrow> real list \<Rightarrow> real list" where
  "cumsum_from acc [] = []"
| "cumsum_from acc (x # xs) = (acc + x) # cumsum_from (acc + x) xs"

definition cumsum :: "real list \<Rightarrow> real list" where
  "cumsum xs = cumsum_from 0 xs"

subsection \<open>Appreciation and overhead costs\<close>

definition monthly_asset_appreciation :: "real \<Rightarrow> int \<Rightarrow> real \<Rightarrow> real list" where
  "monthly_asset_appreciation initial_asset_value months yearly_asset_appreciation =
     (let monthly_asset_appreciation = yearly_asset_appreciation / 12
      in map (\<lambda>i. initial_asset_value * (1 + monthly_asset_appreciation) ^ i)
             (py_range months))"

definition asset_appreciation :: "real \<Rightarrow> real \<Rightarrow> int \<Rightarrow> real list" where
  "asset_appreciation initial_asset_value yearly_asset_appreciation years =
     (let months = years * 12
      in monthly_asset_appreciation initial_asset_value months yearly_asset_appreciation)"

definition overhead_costs :: "real \<Rightarrow> real \<Rightarrow> int \<Rightarrow> real list" where
  "overhead_costs initial_asset_value yearly_asset_appreciation years =
     (let house_value_per_month =
            asset_appreciation initial_asset_value yearly_asset_appreciation years;
          monthly_insurance = np_mul_scalar house_value_per_month (YEARLY_INSURANCE / 12);
          monthly_vve = np_mul_scalar house_value_per_month (YEARLY_VVE / 12);
          monthly_woz = np_mul_scalar house_value_per_month (YEARLY_WOZ / 12)
      in np_add (np_add monthly_insurance monthly_vve) monthly_woz)"

subsection \<open>Linear amortization\<close>

text \<open>
  \<open>principal / months\<close> raises for \<open>months = 0\<close>. In \<open>linear_mortgage\<close> the index
  \<open>i\<close> of \<open>remaining_principal[i]\<close> runs over \<open>range(months)\<close>, the length of that
  array, so the read is always in range.
\<close>

definition linear_mortgage_remaining_principal :: "real \<Rightarrow> int \<Rightarrow> py_error + real list" where
  "linear_mortgage_remaining_principal principal' years =
     (let months = years * 12
      in case py_div principal' (of_int months) of
           Inl e \<Rightarrow> Inl e
         | Inr linear_payment \<Rightarrow>
             Inr (map (\<lambda>i. principal' - linear_payment * of_nat i) (py_range months)))"

definition linear_mortgage :: "real \<Rightarrow> real \<Rightarrow> int \<Rightarrow> py_error + real list" where
  "linear_mortgage principal' interest_rate years =
     (let monthly_rate = interest_rate / 12;
          months = years * 12
      in case py_div principal' (of_int months) of
           Inl e \<Rightarrow> Inl e
         | Inr linear_payment \<Rightarrow>
            (case linear_mortgage_remaining_principal principal' years of
               Inl e \<Rightarrow> Inl e
             | Inr remaining_principal \<Rightarrow>
                 (let interest_payments =
                        map (\<lambda>i. remaining_principal ! i * monthly_rate) (py_range months);
                      interest_deductible = np_scale INTEREST_DEDUCTIBLE interest_payments;
                      net_payments =
                        np_sub (np_scalar_add linear_payment interest_payments)
                               interest_deductible
                  in Inr net_payments)))"

subsection \<open>The numpy-financial functions used by the annuity engine\<close>

text \<open>
  \<open>npf.pmt\<close>, \<open>npf.ipmt\<close> and \<open>npf.ppmt\<close> belong to the numpy-financial package,
  which the module imports; their code is not part of the module. The spec names what
  they compute: the constant gross payment of the standard annuity formula, the
  interest portion \<open>r * outstanding balance before the period\<close>, and the principal
  portion \<open>P - I\<close>. They are modelled by the package's formulas, with the future value
  and the payment timing as arguments; the module leaves both at their defaults
  \<open>fv = 0\<close> and \<open>when = 'end'\<close>, that is \<open>0\<close>. Where numpy divides by zero and yields a
  non-finite value, the model has HOL's \<open>x / 0 = 0\<close>; no property below is stated
  there.
\<close>

text \<open>
  Modelled from the spec: \<open>npf.pmt\<close> is missing from the source. The payment per period
  of the standard annuity formula, \<open>-(fv + pv * (1 + rate)^nper) / fact\<close> with
  \<open>fact = nper\<close> at rate 0 and \<open>(1 + rate * when) * ((1 + rate)^nper - 1) / rate\<close>
  otherwise.
\<close>

definition pmt :: "real \<Rightarrow> int \<Rightarrow> real \<Rightarrow> real \<Rightarrow> real \<Rightarrow> real" where
  "pmt rate nper pv fval when =
     (let temp = (1 + rate) powi nper;
          masked_rate = (if rate = 0 then 1 else rate);
          fact = (if rate = 0 then of_int nper
                  else (1 + masked_rate * when) * (temp - 1) / masked_rate)
      in - (fval + pv * temp) / fact)"

text \<open>
  Modelled from the spec: \<open>npf.fv\<close> is missing from the source. The future value after
  \<open>nper\<close> periods of payments \<open>payment\<close> on the present value \<open>pv\<close>.
\<close>

definition fv :: "real \<Rightarrow> int \<Rightarrow> real \<Rightarrow> real \<Rightarrow> real \<Rightarrow> real" where
  "fv rate nper payment pv when =
     (let temp = (1 + rate) powi nper;
          fact = (if rate = 0 then of_int nper
                  else (1 + rate * when) * (temp - 1) / rate)
      in - (pv * temp + payment * fact))"

text \<open>
  Modelled from the spec: the package's helper \<open>_rbl\<close> is missing from the source. The
  remaining balance on the loan before period \<open>per\<close>, which is the future value after
  \<open>per - 1\<close> periods.
\<close>

definition rbl :: "real \<Rightarrow> int \<Rightarrow> real \<Rightarrow> real \<Rightarrow> real \<Rightarrow> real" where
  "rbl rate per payment pv when = fv rate (per - 1) payment pv when"

text \<open>
  Modelled from the spec: \<open>npf.ipmt\<close> is missing from the source. The interest portion of
  period \<open>per\<close>: the rate times the remaining balance before the period, discounted by
  one period when payments are due at the beginning, and 0 in the first such period.
\<close>

definition ipmt :: "real \<Rightarrow> int \<Rightarrow> int \<Rightarrow> real \<Rightarrow> real \<Rightarrow> real \<Rightarrow> real" where
  "ipmt rate per nper pv fval when =
     (let total_pmt = pmt rate nper pv fval when;
          ipmt0 = rbl rate per total_pmt pv when * rate;
          ipmt1 = (if when = 1 then ipmt0 / (1 + rate) else ipmt0)
      in if when = 1 \<and> per = 1 then 0 else ipmt1)"

text \<open>
  Modelled from the spec: \<open>npf.ppmt\<close> is missing from the source. The principal portion
  of period \<open>per\<close>: the payment minus the interest portion.
\<close>

definition ppmt :: "real \<Rightarrow> int \<Rightarrow> int \<Rightarrow> real \<Rightarrow> real \<Rightarrow> real \<Rightarrow> real" where
  "ppmt rate per nper pv fval when =
     (let total = pmt rate nper pv fval when
      in total - ipmt rate per nper pv fval when)"

subsection \<open>Annuity amortization\<close>

text \<open>\<open>list(range(1, months + 1))\<close>, the 1-based periods.\<close>

definition periods :: "int \<Rightarrow> int list" where
  "periods months = [1..months]"

text \<open>
  The locals \<open>bruto_payments\<close> and \<open>interest_payments\<close> of \<open>annuity_mortgage\<close>, as
  functions of its arguments: \<open>[payment] * months\<close> is empty for \<open>months \<le> 0\<close>, and
  \<open>npf.ipmt\<close> over a list of periods works period by period.
\<close>

definition annuity_payment :: "real \<Rightarrow> real \<Rightarrow> int \<Rightarrow> real" where
  "annuity_payment principal' interest_rate years =
     (let monthly_rate = interest_rate / 12;
          months = years * 12
      in pmt monthly_rate months (- principal') 0 0)"

definition annuity_bruto_payments :: "real \<Rightarrow> real \<Rightarrow> int \<Rightarrow> real list" where
  "annuity_bruto_payments principal' interest_rate years =
     (let months = years * 12;
          payment = annuity_payment principal' interest_rate years
      in replicate (nat months) payment)"

definition annuity_interest_payments :: "real \<Rightarrow> real \<Rightarrow> int \<Rightarrow> real list" where
  "annuity_interest_payments principal' interest_rate years =
     (let monthly_rate = interest_rate / 12;
          months = years * 12
      in map (\<lambda>per. ipmt monthly_rate per months (- principal') 0 0) (periods months))"

definition annuity_mortgage :: "real \<Rightarrow> real \<Rightarrow> int \<Rightarrow> real list" where
  "annuity_mortgage principal' interest_rate years =
     (let bruto_payments = annuity_bruto_payments principal' interest_rate years;
          interest_payments = annuity_interest_payments principal' interest_rate years;
          interest_deductible = np_scale INTEREST_DEDUCTIBLE interest_payments;
          net_payments = np_sub bruto_payments interest_deductible
      in net_payments)"

text \<open>The local \<open>payment\<close> of \<open>annuity_mortgage_remaining_principal\<close>: the principal portions.\<close>

definition annuity_principal_payments :: "real \<Rightarrow> real \<Rightarrow> int \<Rightarrow> real list" where
  "annuity_principal_payments principal' interest_rate years =
     (let monthly_rate = interest_rate / 12;
          months = years * 12
      in map (\<lambda>per. ppmt monthly_rate per months (- principal') 0 0) (periods months))"

definition annuity_mortgage_remaining_principal :: "real \<Rightarrow> real \<Rightarrow> int \<Rightarrow> real list" where
  "annuity_mortgage_remaining_principal principal' interest_rate years =
     (let payment = annuity_principal_payments principal' interest_rate years;
          cumsum = cumsum payment
      in np_scalar_sub principal' cumsum)"

subsection \<open>The annuity schedule in the spec's words\<close>

text \<open>
  The spec describes the annuity engine by the standard annuity formula (the payment
  whose present value over \<open>n\<close> periods at rate \<open>r\<close> is the principal, which is
  \<open>principal / n\<close> at rate 0) and by a recurrence: the outstanding balance starts at the
  principal, and each period subtracts that period's principal portion \<open>P - I\<close>, where
  \<open>I = r * balance before the period\<close>. The two definitions below follow these words;
  they are compared with the package's closed forms. \<open>outstanding_balance P r pval j\<close> is
  the balance after \<open>j\<close> periods, that is the balance before period \<open>j + 1\<close>.
\<close>

definition standard_annuity_payment :: "real \<Rightarrow> nat \<Rightarrow> real \<Rightarrow> real" where
  "standard_annuity_payment r n pval =
     (if r = 0 then pval / of_nat n else pval * r / (1 - 1 / (1 + r) ^ n))"

fun outstanding_balance :: "real \<Rightarrow> real \<Rightarrow> real \<Rightarrow> nat \<Rightarrow> real" where
  "outstanding_balance P r pval 0 = pval"
| "outstanding_balance P r pval (Suc j) =
     outstanding_balance P r pval j - (P - r * outstanding_balance P r pval j)"

section \<open>Properties\<close>

subsection \<open>Helper facts\<close>

lemma length_py_range: "length (py_range n) = nat n"
  by (simp add: py_range_def)

lemma nth_py_range: "i < nat n \<Longrightarrow> py_range n ! i = i"
  by (simp add: py_range_def)

lemma length_monthly_asset_appreciation:
  "length (monthly_asset_appreciation v m a) = nat m"
  by (simp add: monthly_asset_appreciation_def length_py_range)

lemma nth_monthly_asset_appreciation:
  "i < nat m \<Longrightarrow> monthly_asset_appreciation v m a ! i = v * (1 + a / 12) ^ i"
  by (simp add: monthly_asset_appreciation_def length_py_range nth_py_range)

subsection \<open>Appreciation engine\<close>

text \<open>
  Claim C6. For every initial value, every \<open>months \<ge> 0\<close> and every yearly rate (also a
  negative one), \<open>monthly_asset_appreciation\<close> returns exactly \<open>months\<close> entries, the
  entry at index \<open>i\<close> being \<open>initial_value * (1 + yearly_rate/12)^i\<close>; \<open>months = 0\<close>
  gives the empty sequence, and when \<open>months > 0\<close> the entry at month 0 is the initial
  value itself.
\<close>

theorem monthly_asset_appreciation_contract:
  assumes "0 \<le> months"
  shows "int (length (monthly_asset_appreciation v months a)) = months
       \<and> (\<forall>i < length (monthly_asset_appreciation v months a).
             monthly_asset_appreciation v months a ! i = v * (1 + a / 12) ^ i)
       \<and> monthly_asset_appreciation v 0 a = []
       \<and> (0 < months \<longrightarrow> monthly_asset_appreciation v months a ! 0 = v)"
proof -
  have len: "int (length (monthly_asset_appreciation v months a)) = months"
    using assms by (simp add: length_monthly_asset_appreciation)
  have entries: "\<forall>i < length (monthly_asset_appreciation v months a).
          monthly_asset_appreciation v months a ! i = v * (1 + a / 12) ^ i"
    by (simp add: length_monthly_asset_appreciation nth_monthly_asset_appreciation)
  have empty: "monthly_asset_appreciation v 0 a = []"
    by (simp add: monthly_asset_appreciation_def py_range_def)
  have first: "0 < months \<longrightarrow> monthly_asset_appreciation v months a ! 0 = v"
    by (simp add: nth_monthly_asset_appreciation)
  from len entries empty first show ?thesis by blast
qed

theorem monthly_asset_appreciation_contract_witness:
  "(0::int) \<le> 3
   \<and> length (monthly_asset_appreciation 200 3 (-0.12)) = 3
   \<and> monthly_asset_appreciation 200 3 (-0.12) ! 2 = 200 * (1 + (-0.12) / 12) ^ 2
   \<and> monthly_asset_appreciation 200 3 (-0.12) ! 0 = 200"
  using monthly_asset_appreciation_contract [of 3 200 "-0.12"]
  by (simp add: length_monthly_asset_appreciation)

subsection \<open>Linear amortization engine\<close>

lemma map2_same:
  "map2 f (map g xs) (map h xs) = map (\<lambda>x. f (g x) (h x)) xs"
  by (induction xs) simp_all

lemma linear_mortgage_remaining_principal_Inr:
  "years \<noteq> 0 \<Longrightarrow>
   linear_mortgage_remaining_principal p years =
     Inr (map (\<lambda>i. p - p / of_int (years * 12) * of_nat i) [0..<nat (years * 12)])"
  by (simp add: linear_mortgage_remaining_principal_def py_div_def py_range_def)

lemma linear_mortgage_remaining_principal_zero:
  "linear_mortgage_remaining_principal p 0 = Inl ZeroDivisionError"
  by (simp add: linear_mortgage_remaining_principal_def py_div_def)

lemma linear_mortgage_zero: "linear_mortgage p r 0 = Inl ZeroDivisionError"
  by (simp add: linear_mortgage_def py_div_def)

lemma linear_mortgage_Inr:
  assumes "years \<noteq> 0"
  shows "linear_mortgage p r years =
     Inr (map (\<lambda>i. p / of_int (years * 12)
                    + (p - p / of_int (years * 12) * of_nat i) * (r / 12)
                    - INTEREST_DEDUCTIBLE * ((p - p / of_int (years * 12) * of_nat i) * (r / 12)))
              [0..<nat (years * 12)])"
proof -
  let ?m = "years * 12"
  let ?rp = "map (\<lambda>i. p - p / of_int ?m * of_nat i) [0..<nat ?m]"
  let ?ip = "map (\<lambda>i. ?rp ! i * (r / 12)) [0..<nat ?m]"
  have rp: "linear_mortgage_remaining_principal p years = Inr ?rp"
    using assms by (rule linear_mortgage_remaining_principal_Inr)
  have m: "(of_int ?m :: real) \<noteq> 0" using assms by simp
  have lm: "linear_mortgage p r years =
      Inr (np_sub (np_scalar_add (p / of_int ?m) ?ip) (np_scale INTEREST_DEDUCTIBLE ?ip))"
    unfolding linear_mortgage_def Let_def py_div_def py_range_def rp using m by simp
  have "np_sub (np_scalar_add (p / of_int ?m) ?ip) (np_scale INTEREST_DEDUCTIBLE ?ip) =
      map (\<lambda>i. p / of_int ?m + (p - p / of_int ?m * of_nat i) * (r / 12)
                  - INTEREST_DEDUCTIBLE * ((p - p / of_int ?m * of_nat i) * (r / 12)))
          [0..<nat ?m]"
    by (rule nth_equalityI) (simp_all add: np_sub_def np_scalar_add_def np_scale_def)
  with lm show ?thesis by simp
qed


lemma interest_deductible_value: "INTEREST_DEDUCTIBLE = 0.36"
  by (simp add: INTEREST_DEDUCTIBLE_def)

text \<open>
  Claim C2. For \<open>principal > 0\<close> and \<open>years > 0\<close>, with \<open>months = years * 12\<close>,
  \<open>linear_mortgage_remaining_principal\<close> returns a sequence of \<open>months\<close> entries, the
  entry at index \<open>i\<close> being \<open>principal - (principal / months) * i\<close>. So entry 0 is the
  principal, two consecutive entries differ by exactly \<open>principal / months\<close>, and the
  last entry is \<open>principal - (principal / months) * (months - 1)\<close>. The instance
  \<open>(120000, 10)\<close> has length 120, first element 120000 and last element 1000.
\<close>

theorem linear_mortgage_remaining_principal_schedule:
  assumes "0 < p" and "0 < years"
  shows "\<exists>rp. linear_mortgage_remaining_principal p years = Inr rp
           \<and> int (length rp) = years * 12
           \<and> (\<forall>i < length rp. rp ! i = p - (p / of_int (years * 12)) * of_nat i)
           \<and> rp ! 0 = p
           \<and> (\<forall>i. Suc i < length rp \<longrightarrow> rp ! i - rp ! Suc i = p / of_int (years * 12))
           \<and> last rp = p - (p / of_int (years * 12)) * (of_int (years * 12) - 1)"
proof -
  let ?m = "years * 12"
  let ?rp = "map (\<lambda>i. p - p / of_int ?m * of_nat i) [0..<nat ?m]"
  have rp: "linear_mortgage_remaining_principal p years = Inr ?rp"
    using assms by (intro linear_mortgage_remaining_principal_Inr) simp
  have len: "int (length ?rp) = ?m" using assms by simp
  have pos: "0 < nat ?m" using assms by simp
  have entries: "\<forall>i < length ?rp. ?rp ! i = p - (p / of_int ?m) * of_nat i"
    by simp
  have first: "?rp ! 0 = p" using pos by simp
  have step: "\<forall>i. Suc i < length ?rp \<longrightarrow> ?rp ! i - ?rp ! Suc i = p / of_int ?m"
    by (simp add: algebra_simps add_divide_distrib)
  have "?rp \<noteq> []" using pos by simp
  then have "last ?rp = ?rp ! (nat ?m - 1)" by (simp add: last_conv_nth)
  also have "\<dots> = p - (p / of_int ?m) * of_nat (nat ?m - 1)" using pos by simp
  also have "of_nat (nat ?m - 1) = (of_int ?m - 1 :: real)"
    using pos by simp
  finally have lst: "last ?rp = p - (p / of_int ?m) * (of_int ?m - 1)" .
  from rp len entries first step lst show ?thesis by blast
qed

theorem linear_mortgage_remaining_principal_schedule_witness:
  "(0::real) < 120000 \<and> (0::int) < 10
   \<and> (\<exists>rp. linear_mortgage_remaining_principal 120000 10 = Inr rp
          \<and> length rp = 120 \<and> rp ! 0 = 120000 \<and> rp ! 1 = 119000 \<and> last rp = 1000)"
proof -
  obtain rp where rp: "linear_mortgage_remaining_principal 120000 10 = Inr rp"
      "int (length rp) = 10 * 12"
      "\<forall>i < length rp. rp ! i = 120000 - (120000 / of_int (10 * 12)) * of_nat i"
      "rp ! 0 = 120000"
      "last rp = 120000 - (120000 / of_int (10 * 12)) * (of_int (10 * 12) - 1)"
    using linear_mortgage_remaining_principal_schedule [of 120000 10] by auto
  from rp(2) have len: "length rp = 120" by simp
  with rp(3) have "rp ! 1 = 120000 - (120000 / of_int (10 * 12)) * of_nat 1" by simp
  then have "rp ! 1 = 119000" by simp
  moreover from rp(5) have "last rp = 1000" by simp
  ultimately show ?thesis using rp(1,4) len by simp
qed

lemma after_deduction_strict_mono:
  "x < y \<Longrightarrow> x - INTEREST_DEDUCTIBLE * x < y - INTEREST_DEDUCTIBLE * y"
  by (simp add: interest_deductible_value)

text \<open>
  Claim C5 (as amended). For \<open>principal > 0\<close>, \<open>interest_rate > 0\<close> and \<open>years > 0\<close>,
  in the sequence returned by \<open>linear_mortgage\<close> the interest component
  \<open>remaining_principal[i] * interest_rate / 12\<close> strictly decreases month over month,
  and so does the net payment
  \<open>linear_payment + interest_i - INTEREST_DEDUCTIBLE * interest_i\<close>.
\<close>

theorem linear_mortgage_strictly_decreasing:
  assumes "0 < p" and "0 < r" and "0 < years"
  shows "\<exists>rp net. linear_mortgage_remaining_principal p years = Inr rp
           \<and> linear_mortgage p r years = Inr net
           \<and> length rp = nat (years * 12) \<and> length net = nat (years * 12)
           \<and> (\<forall>i < length net. net ! i =
                  p / of_int (years * 12) + rp ! i * (r / 12)
                    - INTEREST_DEDUCTIBLE * (rp ! i * (r / 12)))
           \<and> (\<forall>i. Suc i < length rp \<longrightarrow> rp ! Suc i * (r / 12) < rp ! i * (r / 12))
           \<and> (\<forall>i. Suc i < length net \<longrightarrow> net ! Suc i < net ! i)"
proof -
  let ?m = "years * 12"
  let ?lp = "p / of_int ?m"
  let ?rp = "map (\<lambda>i. p - ?lp * of_nat i) [0..<nat ?m]"
  let ?net = "map (\<lambda>i. ?lp + (p - ?lp * of_nat i) * (r / 12)
                      - INTEREST_DEDUCTIBLE * ((p - ?lp * of_nat i) * (r / 12))) [0..<nat ?m]"
  have y: "years \<noteq> 0" using assms by simp
  have rp: "linear_mortgage_remaining_principal p years = Inr ?rp"
    using y by (rule linear_mortgage_remaining_principal_Inr)
  have net: "linear_mortgage p r years = Inr ?net"
    using y by (rule linear_mortgage_Inr)
  have lp: "0 < ?lp" using assms by simp
  have "p - L * of_nat (Suc i) < p - L * of_nat i" if "0 < L" for L :: real and i
    using that by (simp add: algebra_simps)
  from this [OF lp] have drop: "p - ?lp * of_nat (Suc i) < p - ?lp * of_nat i" for i .
  have interest: "(p - ?lp * of_nat (Suc i)) * (r / 12) < (p - ?lp * of_nat i) * (r / 12)" for i
    using drop [of i] assms(2) by (intro mult_strict_right_mono) simp_all
  have l1: "length ?rp = nat ?m" and l2: "length ?net = nat ?m" by simp_all
  have comp: "\<forall>i < length ?net. ?net ! i =
      ?lp + ?rp ! i * (r / 12) - INTEREST_DEDUCTIBLE * (?rp ! i * (r / 12))"
    by simp
  have dec_i: "\<forall>i. Suc i < length ?rp \<longrightarrow> ?rp ! Suc i * (r / 12) < ?rp ! i * (r / 12)"
    using interest by simp
  have dec_n: "\<forall>i. Suc i < length ?net \<longrightarrow> ?net ! Suc i < ?net ! i"
  proof (intro allI impI)
    fix i assume i: "Suc i < length ?net"
    let ?I = "\<lambda>i. (p - ?lp * of_nat i) * (r / 12)"
    have "?I (Suc i) - INTEREST_DEDUCTIBLE * ?I (Suc i) < ?I i - INTEREST_DEDUCTIBLE * ?I i"
      using interest [of i] by (rule after_deduction_strict_mono)
    then show "?net ! Suc i < ?net ! i" using i by simp
  qed
  from rp net l1 l2 comp dec_i dec_n show ?thesis by blast
qed

theorem linear_mortgage_strictly_decreasing_witness:
  "(0::real) < 1200 \<and> (0::real) < 0.12 \<and> (0::int) < 1
   \<and> (\<exists>rp net. linear_mortgage_remaining_principal 1200 1 = Inr rp
          \<and> linear_mortgage 1200 0.12 1 = Inr net
          \<and> length net = 12 \<and> rp ! 1 * (0.12 / 12) < rp ! 0 * (0.12 / 12)
          \<and> net ! 1 < net ! 0)"
proof -
  obtain rp net where *: "linear_mortgage_remaining_principal 1200 1 = Inr rp"
      "linear_mortgage 1200 0.12 1 = Inr net"
      "length rp = nat (1 * 12)" "length net = nat (1 * 12)"
      "\<forall>i. Suc i < length rp \<longrightarrow> rp ! Suc i * (0.12 / 12) < rp ! i * (0.12 / 12)"
      "\<forall>i. Suc i < length net \<longrightarrow> net ! Suc i < net ! i"
    using linear_mortgage_strictly_decreasing [of 1200 "0.12" 1] by auto
  from *(3,5) have "rp ! 1 * (0.12 / 12) < rp ! 0 * (0.12 / 12)" by simp
  moreover from *(4,6) have "net ! 1 < net ! 0" by simp
  ultimately show ?thesis using *(1,2,4) by simp
qed

text \<open>
  With \<open>interest_rate = 0\<close>, which the claim as stated admits, every interest
  component is 0 and every net payment is \<open>principal / months\<close>: nothing decreases.
\<close>

theorem linear_mortgage_zero_rate_counterexample:
  "(0::real) < 1200 \<and> (0::real) \<le> 0 \<and> (0::int) < 1
   \<and> linear_mortgage_remaining_principal 1200 1 =
        Inr [1200, 1100, 1000, 900, 800, 700, 600, 500, 400, 300, 200, 100]
   \<and> \<not> (1100 * (0 / 12) < 1200 * (0 / 12 :: real))
   \<and> linear_mortgage 1200 0 1 =
        Inr [100, 100, 100, 100, 100, 100, 100, 100, 100, 100, 100, 100]
   \<and> \<not> ((100::real) < 100)"
  by (simp add: linear_mortgage_remaining_principal_Inr linear_mortgage_Inr upt_rec)

subsection \<open>Overhead cost engine\<close>

lemma length_asset_appreciation:
  "length (asset_appreciation v a years) = nat (years * 12)"
  by (simp add: asset_appreciation_def length_monthly_asset_appreciation)

lemma nth_asset_appreciation:
  "i < nat (years * 12) \<Longrightarrow> asset_appreciation v a years ! i = v * (1 + a / 12) ^ i"
  by (simp add: asset_appreciation_def nth_monthly_asset_appreciation)

lemma length_overhead_costs:
  "length (overhead_costs v a years) = nat (years * 12)"
  by (simp add: overhead_costs_def Let_def np_add_def np_mul_scalar_def
      length_asset_appreciation)

lemma nth_overhead_costs:
  assumes "i < nat (years * 12)"
  shows "overhead_costs v a years ! i =
           asset_appreciation v a years ! i * (YEARLY_INSURANCE / 12)
         + asset_appreciation v a years ! i * (YEARLY_VVE / 12)
         + asset_appreciation v a years ! i * (YEARLY_WOZ / 12)"
  using assms
  by (simp add: overhead_costs_def Let_def np_add_def np_mul_scalar_def
      length_asset_appreciation)

lemma nth_overhead_costs_sum:
  assumes "i < nat (years * 12)"
  shows "overhead_costs v a years ! i =
           asset_appreciation v a years ! i * (YEARLY_INSURANCE + YEARLY_VVE + YEARLY_WOZ) / 12"
  using assms by (simp add: nth_overhead_costs algebra_simps add_divide_distrib)

lemma overhead_rate_pos: "0 < (YEARLY_INSURANCE + YEARLY_VVE + YEARLY_WOZ) / 12"
  by (simp add: YEARLY_INSURANCE_def YEARLY_VVE_def YEARLY_WOZ_def)

text \<open>
  Claim C7. For every initial asset value, yearly appreciation and \<open>years > 0\<close>,
  \<open>overhead_costs\<close> returns \<open>years * 12\<close> entries, the entry at index \<open>i\<close> being the
  asset-appreciation value of month \<open>i\<close> times
  \<open>(YEARLY_INSURANCE + YEARLY_VVE + YEARLY_WOZ) / 12\<close>, where the three constants are
  0.0013, 0.005 and 0.000577. In particular \<open>overhead_costs(400000, 0.0, 1)\<close> is twelve
  times the value \<open>400000 * (0.0013 + 0.005 + 0.000577) / 12\<close>.
\<close>

theorem overhead_costs_contract:
  assumes "0 < years"
  shows "int (length (overhead_costs v a years)) = years * 12
       \<and> (\<forall>i < length (overhead_costs v a years).
             overhead_costs v a years ! i =
               asset_appreciation v a years ! i
                 * (YEARLY_INSURANCE + YEARLY_VVE + YEARLY_WOZ) / 12
           \<and> asset_appreciation v a years ! i = v * (1 + a / 12) ^ i)
       \<and> YEARLY_INSURANCE = 0.0013 \<and> YEARLY_VVE = 0.005 \<and> YEARLY_WOZ = 0.000577
       \<and> overhead_costs 400000 0 1 = replicate 12 (400000 * (0.0013 + 0.005 + 0.000577) / 12)"
proof -
  have len: "int (length (overhead_costs v a years)) = years * 12"
    using assms by (simp add: length_overhead_costs)
  have entries: "\<forall>i < length (overhead_costs v a years).
             overhead_costs v a years ! i =
               asset_appreciation v a years ! i
                 * (YEARLY_INSURANCE + YEARLY_VVE + YEARLY_WOZ) / 12
           \<and> asset_appreciation v a years ! i = v * (1 + a / 12) ^ i"
    by (simp add: length_overhead_costs nth_overhead_costs_sum nth_asset_appreciation)
  have cvals: "YEARLY_INSURANCE = 0.0013 \<and> YEARLY_VVE = 0.005 \<and> YEARLY_WOZ = 0.000577"
    by (simp add: YEARLY_INSURANCE_def YEARLY_VVE_def YEARLY_WOZ_def)
  have "overhead_costs 400000 0 1 = replicate 12 (400000 * (0.0013 + 0.005 + 0.000577) / 12)"
  proof (rule nth_equalityI)
    show "length (overhead_costs 400000 0 1)
        = length (replicate 12 (400000 * (0.0013 + 0.005 + 0.000577) / 12 :: real))"
      by (simp add: length_overhead_costs)
  next
    fix i assume "i < length (overhead_costs 400000 0 1)"
    then have i: "i < nat (1 * 12)" by (simp add: length_overhead_costs)
    then have "overhead_costs 400000 0 1 ! i
        = 400000 * (YEARLY_INSURANCE + YEARLY_VVE + YEARLY_WOZ) / 12"
      by (simp add: nth_overhead_costs_sum nth_asset_appreciation)
    with i show "overhead_costs 400000 0 1 ! i
        = replicate 12 (400000 * (0.0013 + 0.005 + 0.000577) / 12) ! i"
      by (simp add: YEARLY_INSURANCE_def YEARLY_VVE_def YEARLY_WOZ_def)
  qed
  with len entries cvals show ?thesis by blast
qed

theorem overhead_costs_contract_witness:
  "(0::int) < 2
   \<and> length (overhead_costs 400000 0.06 2) = 24
   \<and> overhead_costs 400000 0.06 2 ! 3 =
        asset_appreciation 400000 0.06 2 ! 3 * (YEARLY_INSURANCE + YEARLY_VVE + YEARLY_WOZ) / 12
   \<and> asset_appreciation 400000 0.06 2 ! 3 = 400000 * (1 + 0.06 / 12) ^ 3"
proof -
  have y: "(0::int) < 2" by simp
  have len: "length (overhead_costs 400000 0.06 2) = 24"
    by (simp add: length_overhead_costs)
  from overhead_costs_contract [OF y, of 400000 "0.06"]
  have "\<forall>i < length (overhead_costs 400000 0.06 2).
          overhead_costs 400000 0.06 2 ! i =
            asset_appreciation 400000 0.06 2 ! i
              * (YEARLY_INSURANCE + YEARLY_VVE + YEARLY_WOZ) / 12
        \<and> asset_appreciation 400000 0.06 2 ! i = 400000 * (1 + 0.06 / 12) ^ i"
    by blast
  then have "overhead_costs 400000 0.06 2 ! 3 =
            asset_appreciation 400000 0.06 2 ! 3
              * (YEARLY_INSURANCE + YEARLY_VVE + YEARLY_WOZ) / 12
        \<and> asset_appreciation 400000 0.06 2 ! 3 = 400000 * (1 + 0.06 / 12) ^ 3"
    unfolding len by (rule allE [where x = 3]) (rule mp, assumption, simp)
  with y len show ?thesis by blast
qed

text \<open>
  Claim C8. For every initial asset value \<open>> 0\<close> and \<open>years > 0\<close>, the sequence returned
  by \<open>overhead_costs\<close> is strictly increasing month over month when the yearly
  appreciation is positive, and constant (all entries equal) when it is 0.
\<close>

theorem overhead_costs_monotone:
  assumes "0 < v" and "0 < years"
  shows "(0 < a \<longrightarrow> (\<forall>i. Suc i < length (overhead_costs v a years) \<longrightarrow>
             overhead_costs v a years ! i < overhead_costs v a years ! Suc i))
       \<and> (a = 0 \<longrightarrow> (\<forall>i < length (overhead_costs v a years).
             overhead_costs v a years ! i = overhead_costs v a years ! 0))"
proof (intro conjI impI allI)
  fix i
  assume a: "0 < a" and i: "Suc i < length (overhead_costs v a years)"
  let ?c = "(YEARLY_INSURANCE + YEARLY_VVE + YEARLY_WOZ) / 12"
  from i have i': "Suc i < nat (years * 12)" "i < nat (years * 12)"
    by (simp_all add: length_overhead_costs)
  have q: "1 < 1 + a / 12" using a by simp
  then have "(1 + a / 12) ^ i < (1 + a / 12) ^ Suc i"
    by (intro power_strict_increasing) simp_all
  with assms(1) have "v * (1 + a / 12) ^ i < v * (1 + a / 12) ^ Suc i"
    by (intro mult_strict_left_mono) simp_all
  then have "v * (1 + a / 12) ^ i * ?c < v * (1 + a / 12) ^ Suc i * ?c"
    using overhead_rate_pos by (intro mult_strict_right_mono) simp_all
  then show "overhead_costs v a years ! i < overhead_costs v a years ! Suc i"
    using i' by (simp add: nth_overhead_costs_sum nth_asset_appreciation)
next
  fix i
  assume a: "a = 0" and i: "i < length (overhead_costs v a years)"
  then have "i < nat (years * 12)" "0 < nat (years * 12)"
    by (simp_all add: length_overhead_costs)
  then show "overhead_costs v a years ! i = overhead_costs v a years ! 0"
    using a by (simp add: nth_overhead_costs_sum nth_asset_appreciation)
qed

theorem overhead_costs_monotone_witness:
  "(0::real) < 400000 \<and> (0::int) < 1 \<and> (0::real) < 0.06
   \<and> overhead_costs 400000 0.06 1 ! 4 < overhead_costs 400000 0.06 1 ! 5
   \<and> overhead_costs 400000 0 1 ! 7 = overhead_costs 400000 0 1 ! 0"
proof -
  have v: "(0::real) < 400000" and y: "(0::int) < 1" and a: "(0::real) < 0.06" by simp_all
  have len: "length (overhead_costs 400000 a 1) = 12" for a
    by (simp add: length_overhead_costs)
  from overhead_costs_monotone [OF v y, of "0.06"] a
  have "\<forall>i. Suc i < length (overhead_costs 400000 0.06 1) \<longrightarrow>
          overhead_costs 400000 0.06 1 ! i < overhead_costs 400000 0.06 1 ! Suc i"
    by blast
  then have "Suc 4 < 12 \<longrightarrow>
          overhead_costs 400000 0.06 1 ! 4 < overhead_costs 400000 0.06 1 ! Suc 4"
    unfolding len by (rule allE)
  then have up: "overhead_costs 400000 0.06 1 ! 4 < overhead_costs 400000 0.06 1 ! 5"
    by (simp add: eval_nat_numeral)
  from overhead_costs_monotone [OF v y, of 0]
  have "\<forall>i < length (overhead_costs 400000 0 1).
          overhead_costs 400000 0 1 ! i = overhead_costs 400000 0 1 ! 0"
    by blast
  then have "7 < (12::nat) \<longrightarrow> overhead_costs 400000 0 1 ! 7 = overhead_costs 400000 0 1 ! 0"
    unfolding len by (rule allE)
  then have flat: "overhead_costs 400000 0 1 ! 7 = overhead_costs 400000 0 1 ! 0" by simp
  from v y a up flat show ?thesis by blast
qed

subsection \<open>Annuity engine: the package's closed forms\<close>

lemma upto_1_conv: "[1..int n] = map (\<lambda>i. int i + 1) [0..<n]"
  by (induction n) (auto simp: upto_rec2)

lemma periods_conv: "periods m = map (\<lambda>i. int i + 1) [0..<nat m]"
proof (cases "0 \<le> m")
  case True
  then show ?thesis using upto_1_conv [of "nat m"] by (simp add: periods_def)
next
  case False
  then show ?thesis by (simp add: periods_def)
qed

lemma length_periods: "length (periods m) = nat m"
  by (simp add: periods_conv)

lemma nth_periods: "i < nat m \<Longrightarrow> periods m ! i = int i + 1"
  by (simp add: periods_conv)

lemma pmt_nonzero_rate:
  "r \<noteq> 0 \<Longrightarrow> pmt r n (- p) 0 0 = p * (1 + r) powi n * r / ((1 + r) powi n - 1)"
  by (simp add: pmt_def Let_def)

lemma pmt_zero_rate: "pmt 0 n (- p) 0 0 = p / of_int n"
  by (simp add: pmt_def Let_def)

lemma rbl_closed:
  "rbl r (int j + 1) P (- p) 0 =
     (if r = 0 then p - P * of_nat j else p * (1 + r) ^ j - P * ((1 + r) ^ j - 1) / r)"
  by (simp add: rbl_def fv_def Let_def)

lemma ipmt_end: "ipmt r per n pv 0 0 = rbl r per (pmt r n pv 0 0) pv 0 * r"
  by (simp add: ipmt_def Let_def)

lemma ppmt_end: "ppmt r per n pv 0 0 = pmt r n pv 0 0 - ipmt r per n pv 0 0"
  by (simp add: ppmt_def Let_def)

lemma length_annuity_bruto_payments:
  "length (annuity_bruto_payments p rate years) = nat (years * 12)"
  by (simp add: annuity_bruto_payments_def Let_def)

lemma length_annuity_interest_payments:
  "length (annuity_interest_payments p rate years) = nat (years * 12)"
  by (simp add: annuity_interest_payments_def Let_def length_periods)

lemma length_annuity_principal_payments:
  "length (annuity_principal_payments p rate years) = nat (years * 12)"
  by (simp add: annuity_principal_payments_def Let_def length_periods)

lemma length_annuity_mortgage:
  "length (annuity_mortgage p rate years) = nat (years * 12)"
  by (simp add: annuity_mortgage_def Let_def np_sub_def np_scale_def
      length_annuity_bruto_payments length_annuity_interest_payments)

lemma nth_annuity_interest_payments:
  "i < nat (years * 12) \<Longrightarrow>
   annuity_interest_payments p rate years ! i =
     ipmt (rate / 12) (int i + 1) (years * 12) (- p) 0 0"
  by (simp add: annuity_interest_payments_def Let_def length_periods nth_periods)

lemma nth_annuity_principal_payments:
  "i < nat (years * 12) \<Longrightarrow>
   annuity_principal_payments p rate years ! i =
     ppmt (rate / 12) (int i + 1) (years * 12) (- p) 0 0"
  by (simp add: annuity_principal_payments_def Let_def length_periods nth_periods)

lemma nth_annuity_mortgage:
  "i < nat (years * 12) \<Longrightarrow>
   annuity_mortgage p rate years ! i =
     annuity_payment p rate years
       - INTEREST_DEDUCTIBLE * ipmt (rate / 12) (int i + 1) (years * 12) (- p) 0 0"
  by (simp add: annuity_mortgage_def Let_def np_sub_def np_scale_def
      length_annuity_bruto_payments length_annuity_interest_payments
      nth_annuity_interest_payments annuity_bruto_payments_def)

lemma length_cumsum_from: "length (cumsum_from acc xs) = length xs"
  by (induction xs arbitrary: acc) simp_all

lemma nth_cumsum_from:
  "i < length xs \<Longrightarrow> cumsum_from acc xs ! i = acc + sum_list (take (Suc i) xs)"
proof (induction xs arbitrary: acc i)
  case Nil
  then show ?case by simp
next
  case (Cons x xs)
  then show ?case by (cases i) (simp_all add: add.assoc)
qed

lemma length_annuity_mortgage_remaining_principal:
  "length (annuity_mortgage_remaining_principal p rate years) = nat (years * 12)"
  by (simp add: annuity_mortgage_remaining_principal_def Let_def np_scalar_sub_def cumsum_def
      length_cumsum_from length_annuity_principal_payments)

lemma nth_annuity_mortgage_remaining_principal:
  "i < nat (years * 12) \<Longrightarrow>
   annuity_mortgage_remaining_principal p rate years ! i =
     p - sum_list (take (Suc i) (annuity_principal_payments p rate years))"
  by (simp add: annuity_mortgage_remaining_principal_def Let_def np_scalar_sub_def cumsum_def
      length_cumsum_from nth_cumsum_from length_annuity_principal_payments)

subsection \<open>Annuity engine: the closed forms against the recurrence\<close>

lemma rbl_step:
  "rbl r (int (Suc j) + 1) P (- p) 0 =
     rbl r (int j + 1) P (- p) 0 - (P - r * rbl r (int j + 1) P (- p) 0)"
proof -
  have a: "rbl r (int (Suc j) + 1) P (- p) 0 =
      (if r = 0 then p - P * of_nat (Suc j)
       else p * (1 + r) ^ Suc j - P * ((1 + r) ^ Suc j - 1) / r)"
    by (rule rbl_closed)
  have b: "rbl r (int j + 1) P (- p) 0 =
      (if r = 0 then p - P * of_nat j else p * (1 + r) ^ j - P * ((1 + r) ^ j - 1) / r)"
    by (rule rbl_closed)
  show ?thesis
  proof (cases "r = 0")
    case True
    then show ?thesis unfolding a b by (simp add: algebra_simps)
  next
    case False
    then show ?thesis unfolding a b by (simp add: field_simps)
  qed
qed

lemma rbl_eq_outstanding_balance:
  "rbl r (int j + 1) P (- p) 0 = outstanding_balance P r p j"
proof (induction j)
  case 0
  show ?case using rbl_closed [of r 0 P p] by simp
next
  case (Suc j)
  show ?case unfolding rbl_step using Suc by simp
qed

lemma growth_gt_one:
  fixes r :: real
  assumes "0 < r" and "0 < n"
  shows "1 < (1 + r) ^ n"
  using assms by (intro one_less_power) simp_all

lemma annuity_formula_forms:
  fixes t :: real
  assumes "1 < t" and "r \<noteq> 0"
  shows "p * t * r / (t - 1) = p * r / (1 - 1 / t)"
    and "(p * t * r / (t - 1) - r * p) * (t - 1) = r * p"
    and "p * t - (p * t * r / (t - 1)) * (t - 1) / r = 0"
  using assms by (simp_all add: field_simps)

lemma pmt_eq_standard_annuity_payment:
  assumes "0 \<le> r" and "0 < n"
  shows "pmt r (int n) (- p) 0 0 = standard_annuity_payment r n p"
proof (cases "r = 0")
  case True
  then show ?thesis by (simp add: pmt_zero_rate standard_annuity_payment_def)
next
  case False
  with assms have r: "0 < r" by simp
  have t: "1 < (1 + r) ^ n" using r assms(2) by (rule growth_gt_one)
  have "pmt r (int n) (- p) 0 0 = p * (1 + r) ^ n * r / ((1 + r) ^ n - 1)"
    using False by (simp add: pmt_nonzero_rate)
  also have "\<dots> = p * r / (1 - 1 / (1 + r) ^ n)"
    using t False by (rule annuity_formula_forms(1))
  also have "\<dots> = standard_annuity_payment r n p"
    using False by (simp add: standard_annuity_payment_def)
  finally show ?thesis .
qed

lemma principal_portion_geometric:
  "P - r * outstanding_balance P r p j = (1 + r) ^ j * (P - r * p)"
proof (induction j)
  case 0
  show ?case by simp
next
  case (Suc j)
  have "P - r * outstanding_balance P r p (Suc j)
      = (1 + r) * (P - r * outstanding_balance P r p j)"
    by (simp add: algebra_simps)
  also have "\<dots> = (1 + r) * ((1 + r) ^ j * (P - r * p))"
    unfolding Suc ..
  finally show ?case by simp
qed

lemma payment_exceeds_first_interest:
  assumes "0 < p" and "0 < r" and "0 < n"
  shows "0 < pmt r (int n) (- p) 0 0 - r * p"
proof -
  let ?t = "(1 + r) ^ n"
  have t: "1 < ?t" using assms(2,3) by (rule growth_gt_one)
  have r0: "r \<noteq> 0" using assms(2) by simp
  have P: "pmt r (int n) (- p) 0 0 = p * ?t * r / (?t - 1)"
    using r0 by (simp add: pmt_nonzero_rate)
  have "(pmt r (int n) (- p) 0 0 - r * p) * (?t - 1) = r * p"
    unfolding P using t r0 by (rule annuity_formula_forms(2))
  moreover have "0 < r * p" using assms by simp
  ultimately have "0 < (pmt r (int n) (- p) 0 0 - r * p) * (?t - 1)" by simp
  moreover have "0 < ?t - 1" using t by linarith
  ultimately show ?thesis by (simp only: zero_less_mult_pos2)
qed

lemma final_balance_zero:
  assumes "0 \<le> r" and "0 < n"
  shows "outstanding_balance (pmt r (int n) (- p) 0 0) r p n = 0"
proof -
  let ?P = "pmt r (int n) (- p) 0 0"
  have "outstanding_balance ?P r p n = rbl r (int n + 1) ?P (- p) 0"
    by (simp only: rbl_eq_outstanding_balance)
  also have "\<dots> = (if r = 0 then p - ?P * of_nat n
                   else p * (1 + r) ^ n - ?P * ((1 + r) ^ n - 1) / r)"
    by (rule rbl_closed)
  also have "\<dots> = 0"
  proof (cases "r = 0")
    case True
    then show ?thesis using assms(2) by (simp add: pmt_zero_rate)
  next
    case False
    with assms have "0 < r" by simp
    then have t: "1 < (1 + r) ^ n" using assms(2) by (rule growth_gt_one)
    have P: "?P = p * (1 + r) ^ n * r / ((1 + r) ^ n - 1)"
      using False by (simp add: pmt_nonzero_rate)
    have "p * (1 + r) ^ n - ?P * ((1 + r) ^ n - 1) / r = 0"
      unfolding P using t False by (rule annuity_formula_forms(3))
    with False show ?thesis by simp
  qed
  finally show ?thesis .
qed

lemma ipmt_eq_interest_on_balance:
  "ipmt r (int j + 1) n (- p) 0 0 = r * outstanding_balance (pmt r n (- p) 0 0) r p j"
  by (simp add: ipmt_end rbl_eq_outstanding_balance)

lemma ppmt_eq_balance_drop:
  "ppmt r (int j + 1) n (- p) 0 0 =
     outstanding_balance (pmt r n (- p) 0 0) r p j
       - outstanding_balance (pmt r n (- p) 0 0) r p (Suc j)"
  by (simp add: ppmt_end ipmt_eq_interest_on_balance)

lemma sum_take_principal_payments:
  "k \<le> nat (years * 12) \<Longrightarrow>
   sum_list (take k (annuity_principal_payments p rate years)) =
     p - outstanding_balance (pmt (rate / 12) (years * 12) (- p) 0 0) (rate / 12) p k"
proof (induction k)
  case 0
  show ?case by simp
next
  case (Suc k)
  then have k: "k < nat (years * 12)" by simp
  then have "take (Suc k) (annuity_principal_payments p rate years) =
      take k (annuity_principal_payments p rate years)
        @ [annuity_principal_payments p rate years ! k]"
    by (simp add: take_Suc_conv_app_nth length_annuity_principal_payments)
  then show ?case
    using Suc k
    by (simp add: nth_annuity_principal_payments ppmt_eq_balance_drop del: outstanding_balance.simps)
qed

lemma interest_step:
  assumes "0 < p" and "0 \<le> r" and "0 < n"
  shows "r * outstanding_balance (pmt r (int n) (- p) 0 0) r p (Suc j)
           \<le> r * outstanding_balance (pmt r (int n) (- p) 0 0) r p j"
    and "0 < r \<Longrightarrow> r * outstanding_balance (pmt r (int n) (- p) 0 0) r p (Suc j)
           < r * outstanding_balance (pmt r (int n) (- p) 0 0) r p j"
proof -
  let ?P = "pmt r (int n) (- p) 0 0"
  let ?B = "outstanding_balance ?P r p"
  have drop: "?B (Suc j) = ?B j - (1 + r) ^ j * (?P - r * p)"
    using principal_portion_geometric [of ?P r p j] by simp
  have strict: "r * ?B (Suc j) < r * ?B j" if r: "0 < r"
  proof -
    have "0 < (1 + r) ^ j" using r by simp
    moreover have "0 < ?P - r * p"
      using assms(1) r assms(3) by (rule payment_exceeds_first_interest)
    ultimately have "0 < (1 + r) ^ j * (?P - r * p)" by (rule mult_pos_pos)
    then have "?B (Suc j) < ?B j" unfolding drop by linarith
    then show ?thesis using r by (rule mult_strict_left_mono)
  qed
  show "0 < r \<Longrightarrow> r * ?B (Suc j) < r * ?B j" by (rule strict)
  show "r * ?B (Suc j) \<le> r * ?B j"
  proof (cases "r = 0")
    case True
    then show ?thesis by simp
  next
    case False
    with assms(2) have "0 < r" by simp
    then show ?thesis using strict by (simp only: less_imp_le)
  qed
qed

lemma nth_annuity_mortgage_balance:
  assumes "i < nat (years * 12)"
  shows "annuity_mortgage p rate years ! i =
     annuity_payment p rate years
       - INTEREST_DEDUCTIBLE
           * (rate / 12 * outstanding_balance (annuity_payment p rate years) (rate / 12) p i)"
  using assms
  by (simp add: nth_annuity_mortgage ipmt_eq_interest_on_balance annuity_payment_def Let_def)

lemma interest_deductible_pos: "0 < INTEREST_DEDUCTIBLE"
  by (simp add: interest_deductible_value)

subsection \<open>Annuity amortization engine\<close>

text \<open>
  Claim C3. For \<open>principal > 0\<close>, \<open>interest_rate \<ge> 0\<close> and \<open>years > 0\<close> the annuity
  schedule amortizes fully: the principal portions (gross payment minus interest
  portion) of all \<open>years * 12\<close> periods add up to the principal, and so the last entry of
  \<open>annuity_mortgage_remaining_principal\<close>, the principal minus the running total of the
  principal portions, is 0. In exact arithmetic both hold without a tolerance.
\<close>

theorem annuity_amortizes_fully:
  assumes "0 < p" and "0 \<le> rate" and "0 < years"
  shows "annuity_principal_payments p rate years =
           np_sub (annuity_bruto_payments p rate years) (annuity_interest_payments p rate years)
       \<and> sum_list (annuity_principal_payments p rate years) = p
       \<and> int (length (annuity_mortgage_remaining_principal p rate years)) = years * 12
       \<and> last (annuity_mortgage_remaining_principal p rate years) = 0"
proof -
  let ?n = "nat (years * 12)"
  let ?pp = "annuity_principal_payments p rate years"
  have n: "0 < ?n" and m: "int ?n = years * 12" using assms(3) by simp_all
  have r: "0 \<le> rate / 12" using assms(2) by simp
  have parts: "?pp =
      np_sub (annuity_bruto_payments p rate years) (annuity_interest_payments p rate years)"
  proof (rule nth_equalityI)
    show "length ?pp = length (np_sub (annuity_bruto_payments p rate years)
        (annuity_interest_payments p rate years))"
      by (simp add: np_sub_def length_annuity_principal_payments
          length_annuity_bruto_payments length_annuity_interest_payments)
  next
    fix i assume "i < length ?pp"
    then have i: "i < ?n" by (simp add: length_annuity_principal_payments)
    then show "?pp ! i = np_sub (annuity_bruto_payments p rate years)
        (annuity_interest_payments p rate years) ! i"
      by (simp add: np_sub_def length_annuity_bruto_payments length_annuity_interest_payments
          nth_annuity_principal_payments nth_annuity_interest_payments ppmt_end
          annuity_bruto_payments_def annuity_payment_def Let_def)
  qed
  have fin: "outstanding_balance (pmt (rate / 12) (years * 12) (- p) 0 0) (rate / 12) p ?n = 0"
    using final_balance_zero [OF r n, of p] unfolding m .
  have "take ?n ?pp = ?pp" by (simp add: length_annuity_principal_payments)
  then have "sum_list ?pp = sum_list (take ?n ?pp)" by simp
  also have "\<dots> = p - outstanding_balance (pmt (rate / 12) (years * 12) (- p) 0 0) (rate / 12) p ?n"
    by (rule sum_take_principal_payments) simp
  finally have total: "sum_list ?pp = p" using fin by simp
  let ?rp = "annuity_mortgage_remaining_principal p rate years"
  have len: "int (length ?rp) = years * 12"
    using m by (simp add: length_annuity_mortgage_remaining_principal)
  have "?rp \<noteq> []" using n length_annuity_mortgage_remaining_principal [of p rate years] by auto
  then have "last ?rp = ?rp ! (?n - 1)"
    by (simp add: last_conv_nth length_annuity_mortgage_remaining_principal)
  also have "\<dots> = p - sum_list (take (Suc (?n - 1)) ?pp)"
    using n by (intro nth_annuity_mortgage_remaining_principal) simp
  also have "Suc (?n - 1) = ?n" using n by simp
  finally have "last ?rp = p - sum_list (take ?n ?pp)" .
  with \<open>take ?n ?pp = ?pp\<close> total have lst: "last ?rp = 0" by simp
  from parts total len lst show ?thesis by blast
qed

theorem annuity_amortizes_fully_witness:
  "(0::real) < 1000 \<and> (0::real) \<le> 0.12 \<and> (0::int) < 1
   \<and> sum_list (annuity_principal_payments 1000 0.12 1) = 1000
   \<and> length (annuity_mortgage_remaining_principal 1000 0.12 1) = 12
   \<and> last (annuity_mortgage_remaining_principal 1000 0.12 1) = 0"
proof -
  have h: "(0::real) < 1000" "(0::real) \<le> 0.12" "(0::int) < 1" by simp_all
  from annuity_amortizes_fully [OF h]
  have "sum_list (annuity_principal_payments 1000 0.12 1) = 1000"
    and "last (annuity_mortgage_remaining_principal 1000 0.12 1) = 0"
    by blast+
  moreover have "length (annuity_mortgage_remaining_principal 1000 0.12 1) = 12"
    by (simp add: length_annuity_mortgage_remaining_principal)
  ultimately show ?thesis using h by blast
qed

text \<open>
  Claim C4. For \<open>principal > 0\<close>, \<open>interest_rate \<ge> 0\<close> and \<open>years > 0\<close> the gross
  payment used by \<open>annuity_mortgage\<close> is the same in all \<open>years * 12\<close> periods, and the
  net payments rise over time: each entry is at least the previous one, and strictly
  more when the interest portion shrinks, that is for a positive rate.
\<close>

theorem annuity_gross_constant_net_rising:
  assumes "0 < p" and "0 \<le> rate" and "0 < years"
  shows "int (length (annuity_bruto_payments p rate years)) = years * 12
       \<and> (\<forall>i < length (annuity_bruto_payments p rate years).
             annuity_bruto_payments p rate years ! i = annuity_payment p rate years)
       \<and> (\<forall>i. Suc i < length (annuity_mortgage p rate years) \<longrightarrow>
             annuity_mortgage p rate years ! i \<le> annuity_mortgage p rate years ! Suc i)
       \<and> (0 < rate \<longrightarrow> (\<forall>i. Suc i < length (annuity_mortgage p rate years) \<longrightarrow>
             annuity_mortgage p rate years ! i < annuity_mortgage p rate years ! Suc i))"
proof -
  let ?n = "nat (years * 12)"
  let ?r = "rate / 12"
  let ?P = "annuity_payment p rate years"
  let ?B = "outstanding_balance ?P ?r p"
  have n: "0 < ?n" and m: "int ?n = years * 12" using assms(3) by simp_all
  have r: "0 \<le> ?r" using assms(2) by simp
  have P: "?P = pmt ?r (int ?n) (- p) 0 0"
    unfolding m by (simp add: annuity_payment_def Let_def)
  have len: "int (length (annuity_bruto_payments p rate years)) = years * 12"
    using m by (simp add: length_annuity_bruto_payments)
  have same: "\<forall>i < length (annuity_bruto_payments p rate years).
      annuity_bruto_payments p rate years ! i = ?P"
    by (simp add: annuity_bruto_payments_def Let_def)
  have le: "?r * ?B (Suc i) \<le> ?r * ?B i" for i
    unfolding P using assms(1) r n by (rule interest_step(1))
  have less: "?r * ?B (Suc i) < ?r * ?B i" if "0 < rate" for i
  proof -
    from that have "0 < ?r" by simp
    with assms(1) r n show ?thesis unfolding P by (rule interest_step(2))
  qed
  have rise: "\<forall>i. Suc i < length (annuity_mortgage p rate years) \<longrightarrow>
      annuity_mortgage p rate years ! i \<le> annuity_mortgage p rate years ! Suc i"
  proof (intro allI impI)
    fix i assume "Suc i < length (annuity_mortgage p rate years)"
    then have i: "i < ?n" "Suc i < ?n" by (simp_all add: length_annuity_mortgage)
    have "INTEREST_DEDUCTIBLE * (?r * ?B (Suc i)) \<le> INTEREST_DEDUCTIBLE * (?r * ?B i)"
      by (rule mult_left_mono [OF le less_imp_le [OF interest_deductible_pos]])
    then show "annuity_mortgage p rate years ! i \<le> annuity_mortgage p rate years ! Suc i"
      unfolding nth_annuity_mortgage_balance [OF i(1)] nth_annuity_mortgage_balance [OF i(2)]
      by linarith
  qed
  have strict: "0 < rate \<longrightarrow> (\<forall>i. Suc i < length (annuity_mortgage p rate years) \<longrightarrow>
      annuity_mortgage p rate years ! i < annuity_mortgage p rate years ! Suc i)"
  proof (intro allI impI)
    fix i assume rate: "0 < rate" and "Suc i < length (annuity_mortgage p rate years)"
    then have i: "i < ?n" "Suc i < ?n" by (simp_all add: length_annuity_mortgage)
    have "INTEREST_DEDUCTIBLE * (?r * ?B (Suc i)) < INTEREST_DEDUCTIBLE * (?r * ?B i)"
      by (rule mult_strict_left_mono [OF less [OF rate] interest_deductible_pos])
    then show "annuity_mortgage p rate years ! i < annuity_mortgage p rate years ! Suc i"
      unfolding nth_annuity_mortgage_balance [OF i(1)] nth_annuity_mortgage_balance [OF i(2)]
      by linarith
  qed
  from len same rise strict show ?thesis by blast
qed

theorem annuity_gross_constant_net_rising_witness:
  "(0::real) < 1000 \<and> (0::real) \<le> 0.12 \<and> (0::int) < 1 \<and> (0::real) < 0.12
   \<and> length (annuity_bruto_payments 1000 0.12 1) = 12
   \<and> annuity_bruto_payments 1000 0.12 1 ! 5 = annuity_payment 1000 0.12 1
   \<and> annuity_mortgage 1000 0.12 1 ! 3 \<le> annuity_mortgage 1000 0.12 1 ! 4
   \<and> annuity_mortgage 1000 0.12 1 ! 3 < annuity_mortgage 1000 0.12 1 ! 4"
proof -
  have h: "(0::real) < 1000" "(0::real) \<le> 0.12" "(0::int) < 1" by simp_all
  have pos: "(0::real) < 0.12" by simp
  have lb: "length (annuity_bruto_payments 1000 0.12 1) = 12"
    by (simp add: length_annuity_bruto_payments)
  have lm: "length (annuity_mortgage 1000 0.12 1) = 12"
    by (simp add: length_annuity_mortgage)
  note inst = annuity_gross_constant_net_rising [OF h]
  from inst have "\<forall>i < length (annuity_bruto_payments 1000 0.12 1).
      annuity_bruto_payments 1000 0.12 1 ! i = annuity_payment 1000 0.12 1"
    by blast
  then have "5 < (12::nat) \<longrightarrow>
      annuity_bruto_payments 1000 0.12 1 ! 5 = annuity_payment 1000 0.12 1"
    unfolding lb by (rule allE)
  then have g: "annuity_bruto_payments 1000 0.12 1 ! 5 = annuity_payment 1000 0.12 1" by simp
  from inst have "\<forall>i. Suc i < length (annuity_mortgage 1000 0.12 1) \<longrightarrow>
      annuity_mortgage 1000 0.12 1 ! i \<le> annuity_mortgage 1000 0.12 1 ! Suc i"
    by blast
  then have "Suc 3 < 12 \<longrightarrow>
      annuity_mortgage 1000 0.12 1 ! 3 \<le> annuity_mortgage 1000 0.12 1 ! Suc 3"
    unfolding lm by (rule allE)
  then have le: "annuity_mortgage 1000 0.12 1 ! 3 \<le> annuity_mortgage 1000 0.12 1 ! 4"
    by (simp add: eval_nat_numeral)
  from inst pos have "\<forall>i. Suc i < length (annuity_mortgage 1000 0.12 1) \<longrightarrow>
      annuity_mortgage 1000 0.12 1 ! i < annuity_mortgage 1000 0.12 1 ! Suc i"
    by blast
  then have "Suc 3 < 12 \<longrightarrow>
      annuity_mortgage 1000 0.12 1 ! 3 < annuity_mortgage 1000 0.12 1 ! Suc 3"
    unfolding lm by (rule allE)
  then have less: "annuity_mortgage 1000 0.12 1 ! 3 < annuity_mortgage 1000 0.12 1 ! 4"
    by (simp add: eval_nat_numeral)
  from h pos lb g le less show ?thesis by blast
qed

subsection \<open>Zero interest rate\<close>

lemma annuity_mortgage_zero_rate:
  "annuity_mortgage p 0 years = replicate (nat (years * 12)) (p / of_int (years * 12))"
proof (rule nth_equalityI)
  show "length (annuity_mortgage p 0 years)
      = length (replicate (nat (years * 12)) (p / real_of_int (years * 12)))"
    by (simp add: length_annuity_mortgage)
next
  fix i assume "i < length (annuity_mortgage p 0 years)"
  then have i: "i < nat (years * 12)" by (simp add: length_annuity_mortgage)
  have "annuity_payment p 0 years = p / of_int (years * 12)"
    using pmt_zero_rate [of "years * 12" p] by (simp add: annuity_payment_def Let_def)
  moreover have "ipmt (0 / 12) (int i + 1) (years * 12) (- p) 0 0 = 0"
    by (simp add: ipmt_end)
  ultimately have "annuity_mortgage p 0 years ! i = p / of_int (years * 12)"
    unfolding nth_annuity_mortgage [OF i] by simp
  with i show "annuity_mortgage p 0 years ! i
      = replicate (nat (years * 12)) (p / real_of_int (years * 12)) ! i"
    by simp
qed

lemma linear_mortgage_zero_rate:
  assumes "years \<noteq> 0"
  shows "linear_mortgage p 0 years =
           Inr (replicate (nat (years * 12)) (p / of_int (years * 12)))"
proof -
  have "map (\<lambda>i. p / of_int (years * 12)
                    + (p - p / of_int (years * 12) * of_nat i) * (0 / 12)
                    - INTEREST_DEDUCTIBLE * ((p - p / of_int (years * 12) * of_nat i) * (0 / 12)))
              [0..<nat (years * 12)]
        = replicate (nat (years * 12)) (p / real_of_int (years * 12))"
    by (rule nth_equalityI) simp_all
  then show ?thesis unfolding linear_mortgage_Inr [OF assms] by (rule arg_cong)
qed

text \<open>
  Claim C10. For \<open>interest_rate = 0\<close>, \<open>principal > 0\<close> and \<open>years > 0\<close>,
  \<open>annuity_mortgage\<close> and \<open>linear_mortgage\<close> return the same sequence, every entry of
  which is \<open>principal / (years * 12)\<close>.
\<close>

theorem zero_rate_annuity_equals_linear:
  assumes "0 < p" and "0 < years"
  shows "linear_mortgage p 0 years = Inr (annuity_mortgage p 0 years)
       \<and> annuity_mortgage p 0 years =
           replicate (nat (years * 12)) (p / of_int (years * 12))
       \<and> int (length (annuity_mortgage p 0 years)) = years * 12"
proof -
  have "years \<noteq> 0" using assms(2) by simp
  then have "linear_mortgage p 0 years =
      Inr (replicate (nat (years * 12)) (p / of_int (years * 12)))"
    by (rule linear_mortgage_zero_rate)
  moreover have "int (length (annuity_mortgage p 0 years)) = years * 12"
    using assms(2) by (simp add: length_annuity_mortgage)
  ultimately show ?thesis by (simp add: annuity_mortgage_zero_rate)
qed

theorem zero_rate_annuity_equals_linear_witness:
  "(0::real) < 1200 \<and> (0::int) < 1
   \<and> linear_mortgage 1200 0 1 = Inr (annuity_mortgage 1200 0 1)
   \<and> annuity_mortgage 1200 0 1 = replicate 12 100"
  using zero_rate_annuity_equals_linear [of 1200 1] by simp

subsection \<open>Malformed input\<close>

lemma annuity_mortgage_nonpositive_years:
  "years \<le> 0 \<Longrightarrow> annuity_mortgage p r years = []"
  using length_annuity_mortgage [of p r years] by simp

lemma annuity_mortgage_remaining_principal_nonpositive_years:
  "years \<le> 0 \<Longrightarrow> annuity_mortgage_remaining_principal p r years = []"
  using length_annuity_mortgage_remaining_principal [of p r years] by simp

lemma asset_appreciation_nonpositive_years:
  "years \<le> 0 \<Longrightarrow> asset_appreciation v a years = []"
  using length_asset_appreciation [of v a years] by simp

lemma overhead_costs_nonpositive_years:
  "years \<le> 0 \<Longrightarrow> overhead_costs v a years = []"
  using length_overhead_costs [of v a years] by simp

text \<open>
  Claim C9. No operation rejects malformed input by an error of its own. With
  \<open>years = 0\<close>, \<open>asset_appreciation\<close> and \<open>overhead_costs\<close> return the empty sequence
  (as do the two annuity functions), while \<open>linear_mortgage\<close> and
  \<open>linear_mortgage_remaining_principal\<close> fail with the division by zero of
  \<open>principal / months\<close>. For every other \<open>years\<close> the linear functions return a
  sequence whatever the principal, negative ones included, and a negative \<open>years\<close>
  gives the empty sequence.
\<close>

theorem malformed_input_not_rejected:
  "asset_appreciation v a 0 = []
   \<and> overhead_costs v a 0 = []
   \<and> annuity_mortgage p r 0 = []
   \<and> annuity_mortgage_remaining_principal p r 0 = []
   \<and> linear_mortgage p r 0 = Inl ZeroDivisionError
   \<and> linear_mortgage_remaining_principal p 0 = Inl ZeroDivisionError
   \<and> (years \<noteq> 0 \<longrightarrow>
         (\<exists>xs. linear_mortgage_remaining_principal p years = Inr xs
                \<and> length xs = nat (years * 12))
       \<and> (\<exists>xs. linear_mortgage p r years = Inr xs \<and> length xs = nat (years * 12)))
   \<and> (years < 0 \<longrightarrow>
         linear_mortgage_remaining_principal p years = Inr []
       \<and> linear_mortgage p r years = Inr []
       \<and> annuity_mortgage p r years = []
       \<and> annuity_mortgage_remaining_principal p r years = []
       \<and> asset_appreciation v a years = []
       \<and> overhead_costs v a years = [])"
proof -
  have zero: "asset_appreciation v a 0 = []" "overhead_costs v a 0 = []"
      "annuity_mortgage p r 0 = []" "annuity_mortgage_remaining_principal p r 0 = []"
    by (simp_all add: asset_appreciation_nonpositive_years overhead_costs_nonpositive_years
        annuity_mortgage_nonpositive_years annuity_mortgage_remaining_principal_nonpositive_years)
  have err: "linear_mortgage p r 0 = Inl ZeroDivisionError"
      "linear_mortgage_remaining_principal p 0 = Inl ZeroDivisionError"
    by (rule linear_mortgage_zero, rule linear_mortgage_remaining_principal_zero)
  have ok: "years \<noteq> 0 \<longrightarrow>
         (\<exists>xs. linear_mortgage_remaining_principal p years = Inr xs
                \<and> length xs = nat (years * 12))
       \<and> (\<exists>xs. linear_mortgage p r years = Inr xs \<and> length xs = nat (years * 12))"
    by (simp add: linear_mortgage_remaining_principal_Inr linear_mortgage_Inr)
  have neg: "years < 0 \<longrightarrow>
         linear_mortgage_remaining_principal p years = Inr []
       \<and> linear_mortgage p r years = Inr []
       \<and> annuity_mortgage p r years = []
       \<and> annuity_mortgage_remaining_principal p r years = []
       \<and> asset_appreciation v a years = []
       \<and> overhead_costs v a years = []"
    by (simp add: linear_mortgage_remaining_principal_Inr linear_mortgage_Inr
        asset_appreciation_nonpositive_years overhead_costs_nonpositive_years
        annuity_mortgage_nonpositive_years annuity_mortgage_remaining_principal_nonpositive_years)
  from zero err ok neg show ?thesis by blast
qed

theorem malformed_input_not_rejected_witness:
  "(2::int) \<noteq> 0 \<and> (-1::int) < 0
   \<and> (\<exists>xs. linear_mortgage_remaining_principal (-1200) 2 = Inr xs \<and> length xs = 24)
   \<and> (\<exists>xs. linear_mortgage (-1200) 0.05 2 = Inr xs \<and> length xs = 24)
   \<and> linear_mortgage (-1200) 0.05 (-1) = Inr []
   \<and> overhead_costs 400000 0.05 (-1) = []
   \<and> linear_mortgage (-1200) 0.05 0 = Inl ZeroDivisionError"
  using malformed_input_not_rejected [of 400000 "0.05" "-1200" "0.05" 2]
    malformed_input_not_rejected [of 400000 "0.05" "-1200" "0.05" "-1"]
  by simp

subsection \<open>The worked example: 300000 at 4 percent over 30 years\<close>

lemma interval_mult:
  fixes x y :: real
  assumes "lx \<le> x \<and> x \<le> hx" and "ly \<le> y \<and> y \<le> hy" and "0 \<le> lx" and "0 \<le> ly"
    and "l \<le> lx * ly" and "hx * hy \<le> h"
  shows "l \<le> x * y \<and> x * y \<le> h"
proof -
  have "lx * ly \<le> x * y" using assms by (intro mult_mono) auto
  moreover have "x * y \<le> hx * hy" using assms by (intro mult_mono) auto
  ultimately show ?thesis using assms by linarith
qed

text \<open>
  \<open>(301/300)^360\<close> between two decimals, by repeated squaring on intervals rounded
  outwards to twelve places.
\<close>

lemma growth_factor_bounds:
  fixes a :: real
  assumes a: "a = 301 / 300"
  shows "3313498014027 / 1000000000000 \<le> a ^ 360 \<and> a ^ 360 \<le> 3313498015247 / 1000000000000"
proof -
  have b1: "301 / 300 \<le> a \<and> a \<le> 301 / 300" using a by simp
  have e2: "a ^ 2 = a * a" by (simp add: power2_eq_square)
  have b2: "1006677777777 / 1000000000000 \<le> a ^ 2 \<and> a ^ 2 \<le> 1006677777778 / 1000000000000"
    unfolding e2 by (rule interval_mult [OF b1 b1]) simp_all
  have e4: "a ^ 4 = a ^ 2 * a ^ 2" by (simp flip: power_add)
  have b4: "1013400148270 / 1000000000000 \<le> a ^ 4 \<and> a ^ 4 \<le> 1013400148273 / 1000000000000"
    unfolding e4 by (rule interval_mult [OF b2 b2]) simp_all
  have e5: "a ^ 5 = a ^ 4 * a" using power_add [of a 4 1] by simp
  have b5: "1016778148764 / 1000000000000 \<le> a ^ 5 \<and> a ^ 5 \<le> 1016778148768 / 1000000000000"
    unfolding e5 by (rule interval_mult [OF b4 b1]) simp_all
  have e10: "a ^ 10 = a ^ 5 * a ^ 5" by (simp flip: power_add)
  have b10: "1033837803803 / 1000000000000 \<le> a ^ 10 \<and> a ^ 10 \<le> 1033837803813 / 1000000000000"
    unfolding e10 by (rule interval_mult [OF b5 b5]) simp_all
  have e20: "a ^ 20 = a ^ 10 * a ^ 10" by (simp flip: power_add)
  have b20: "1068820604572 / 1000000000000 \<le> a ^ 20 \<and> a ^ 20 \<le> 1068820604593 / 1000000000000"
    unfolding e20 by (rule interval_mult [OF b10 b10]) simp_all
  have e40: "a ^ 40 = a ^ 20 * a ^ 20" by (simp flip: power_add)
  have b40: "1142377484757 / 1000000000000 \<le> a ^ 40 \<and> a ^ 40 \<le> 1142377484803 / 1000000000000"
    unfolding e40 by (rule interval_mult [OF b20 b20]) simp_all
  have e45: "a ^ 45 = a ^ 40 * a ^ 5" by (simp flip: power_add)
  have b45: "1161544464140 / 1000000000000 \<le> a ^ 45 \<and> a ^ 45 \<le> 1161544464193 / 1000000000000"
    unfolding e45 by (rule interval_mult [OF b40 b5]) simp_all
  have e90: "a ^ 90 = a ^ 45 * a ^ 45" by (simp flip: power_add)
  have b90: "1349185542174 / 1000000000000 \<le> a ^ 90 \<and> a ^ 90 \<le> 1349185542298 / 1000000000000"
    unfolding e90 by (rule interval_mult [OF b45 b45]) simp_all
  have e180: "a ^ 180 = a ^ 90 * a ^ 90" by (simp flip: power_add)
  have b180: "1820301627211 / 1000000000000 \<le> a ^ 180 \<and> a ^ 180 \<le> 1820301627546 / 1000000000000"
    unfolding e180 by (rule interval_mult [OF b90 b90]) simp_all
  have e360: "a ^ 360 = a ^ 180 * a ^ 180" by (simp flip: power_add)
  have b360: "3313498014027 / 1000000000000 \<le> a ^ 360 \<and> a ^ 360 \<le> 3313498015247 / 1000000000000"
    unfolding e360 by (rule interval_mult [OF b180 b180]) simp_all
  show ?thesis by (rule b360)
qed

lemma payment_from_growth_factor:
  fixes t :: real
  assumes "3313498014027 / 1000000000000 \<le> t" and "t \<le> 3313498015247 / 1000000000000"
  shows "\<bar>300000 * t * (1 / 300) / (t - 1) - 1432.25\<bar> < 0.005"
proof -
  have pos: "0 < t - 1" using assms(1) by linarith
  have eq: "300000 * t * (1 / 300) / (t - 1) = 1000 + 1000 / (t - 1)"
    using pos by (simp add: field_simps)
  define u where "u = 1000 / (t - 1)"
  have lo: "432245 / 1000 < u"
    unfolding u_def using pos assms(2) by (simp add: pos_less_divide_eq)
  have hi: "u < 432255 / 1000"
    unfolding u_def using pos assms(1) by (simp add: pos_divide_less_eq)
  have "\<bar>1000 + u - 1432.25\<bar> < 0.005"
    unfolding abs_less_iff using lo hi by simp
  then show ?thesis unfolding eq u_def .
qed

lemma example_gross_payment:
  "\<bar>annuity_payment 300000 0.04 30 - 1432.25\<bar> < 0.005"
proof -
  define a :: real where "a = 301 / 300"
  have a: "a = 301 / 300" by (rule a_def)
  have r: "(0.04 / 12 :: real) = 1 / 300" by simp
  have q: "(1 + 1 / 300 :: real) = a" unfolding a by simp
  have "annuity_payment 300000 0.04 30 = pmt (1 / 300) 360 (- 300000) 0 0"
    unfolding annuity_payment_def Let_def r by simp
  also have "\<dots> = 300000 * (1 + 1 / 300) powi 360 * (1 / 300) / ((1 + 1 / 300) powi 360 - 1)"
    by (rule pmt_nonzero_rate) simp
  also have "\<dots> = 300000 * a ^ 360 * (1 / 300) / (a ^ 360 - 1)"
    unfolding q by simp
  finally have P: "annuity_payment 300000 0.04 30
      = 300000 * a ^ 360 * (1 / 300) / (a ^ 360 - 1)" .
  from growth_factor_bounds [OF a]
  have "3313498014027 / 1000000000000 \<le> a ^ 360" "a ^ 360 \<le> 3313498015247 / 1000000000000"
    by blast+
  then show ?thesis unfolding P by (rule payment_from_growth_factor)
qed

lemma example_first_net_payment:
  "annuity_mortgage 300000 0.04 30 ! 0 =
     annuity_payment 300000 0.04 30 - 0.36 * (0.04 / 12 * 300000)"
proof -
  have "(0::nat) < nat (30 * 12)" by simp
  then have "annuity_mortgage 300000 0.04 30 ! 0 =
     annuity_payment 300000 0.04 30
       - INTEREST_DEDUCTIBLE
           * (0.04 / 12 * outstanding_balance (annuity_payment 300000 0.04 30) (0.04 / 12) 300000 0)"
    by (rule nth_annuity_mortgage_balance)
  then show ?thesis by (simp add: interest_deductible_value)
qed

text \<open>
  Claim C1. For \<open>principal > 0\<close>, \<open>interest_rate \<ge> 0\<close> and \<open>years > 0\<close>,
  \<open>annuity_mortgage\<close> returns \<open>years * 12\<close> entries, and the entry of period \<open>k\<close>
  (\<open>k = 1 .. months\<close>) is \<open>P - INTEREST_DEDUCTIBLE * I_k\<close>: \<open>P\<close> is the constant gross
  payment of the standard annuity formula at the monthly rate \<open>r = interest_rate / 12\<close>
  over \<open>n = years * 12\<close> periods for the principal, and \<open>I_k\<close> is \<open>r\<close> times the
  outstanding balance before period \<open>k\<close>. For 300000 at 0.04 over 30 years the sequence
  has 360 entries, the gross payment is 1432.25 to within half a cent, and the first
  net payment is the gross payment minus 0.36 times the interest of month 1.
\<close>

theorem annuity_mortgage_contract:
  assumes "0 < p" and "0 \<le> rate" and "0 < years"
  shows "int (length (annuity_mortgage p rate years)) = years * 12
       \<and> annuity_payment p rate years
           = standard_annuity_payment (rate / 12) (nat (years * 12)) p
       \<and> (\<forall>k. 1 \<le> k \<and> k \<le> nat (years * 12) \<longrightarrow>
             annuity_mortgage p rate years ! (k - 1) =
               standard_annuity_payment (rate / 12) (nat (years * 12)) p
                 - INTEREST_DEDUCTIBLE
                     * (rate / 12
                         * outstanding_balance
                             (standard_annuity_payment (rate / 12) (nat (years * 12)) p)
                             (rate / 12) p (k - 1)))
       \<and> length (annuity_mortgage 300000 0.04 30) = 360
       \<and> \<bar>annuity_payment 300000 0.04 30 - 1432.25\<bar> < 0.005
       \<and> annuity_mortgage 300000 0.04 30 ! 0 =
           annuity_payment 300000 0.04 30 - 0.36 * (0.04 / 12 * 300000)"
proof -
  let ?n = "nat (years * 12)"
  let ?r = "rate / 12"
  let ?S = "standard_annuity_payment ?r ?n p"
  have n: "0 < ?n" and m: "years * 12 = int ?n" using assms(3) by simp_all
  have r: "0 \<le> ?r" using assms(2) by simp
  have len: "int (length (annuity_mortgage p rate years)) = years * 12"
    using assms(3) by (simp add: length_annuity_mortgage)
  have "annuity_payment p rate years = pmt ?r (int ?n) (- p) 0 0"
    unfolding m [symmetric] by (simp add: annuity_payment_def Let_def)
  also have "\<dots> = ?S" using r n by (rule pmt_eq_standard_annuity_payment)
  finally have P: "annuity_payment p rate years = ?S" .
  have entries: "\<forall>k. 1 \<le> k \<and> k \<le> ?n \<longrightarrow>
      annuity_mortgage p rate years ! (k - 1) =
        ?S - INTEREST_DEDUCTIBLE * (?r * outstanding_balance ?S ?r p (k - 1))"
  proof (intro allI impI)
    fix k assume "1 \<le> k \<and> k \<le> ?n"
    then have "k - 1 < ?n" by linarith
    then show "annuity_mortgage p rate years ! (k - 1) =
        ?S - INTEREST_DEDUCTIBLE * (?r * outstanding_balance ?S ?r p (k - 1))"
      unfolding P [symmetric] by (rule nth_annuity_mortgage_balance)
  qed
  have ex_len: "length (annuity_mortgage 300000 0.04 30) = 360"
    by (simp add: length_annuity_mortgage)
  from len P entries ex_len example_gross_payment example_first_net_payment
  show ?thesis by blast
qed

theorem annuity_mortgage_contract_witness:
  "(0::real) < 1000 \<and> (0::real) \<le> 0.12 \<and> (0::int) < 1
   \<and> length (annuity_mortgage 1000 0.12 1) = 12
   \<and> annuity_payment 1000 0.12 1 = standard_annuity_payment (0.12 / 12) 12 1000
   \<and> annuity_mortgage 1000 0.12 1 ! 1 =
        standard_annuity_payment (0.12 / 12) 12 1000
          - INTEREST_DEDUCTIBLE
              * (0.12 / 12
                  * outstanding_balance (standard_annuity_payment (0.12 / 12) 12 1000)
                      (0.12 / 12) 1000 1)"
proof -
  have h: "(0::real) < 1000" "(0::real) \<le> 0.12" "(0::int) < 1" by simp_all
  have n: "nat (1 * 12) = 12" by simp
  note inst = annuity_mortgage_contract [OF h, unfolded n]
  from inst have len: "int (length (annuity_mortgage 1000 0.12 1)) = 1 * 12" by blast
  from inst have P: "annuity_payment 1000 0.12 1 = standard_annuity_payment (0.12 / 12) 12 1000"
    by blast
  from inst have "\<forall>k. 1 \<le> k \<and> k \<le> 12 \<longrightarrow>
      annuity_mortgage 1000 0.12 1 ! (k - 1) =
        standard_annuity_payment (0.12 / 12) 12 1000
          - INTEREST_DEDUCTIBLE
              * (0.12 / 12
                  * outstanding_balance (standard_annuity_payment (0.12 / 12) 12 1000)
                      (0.12 / 12) 1000 (k - 1))"
    by blast
  then have "1 \<le> (2::nat) \<and> (2::nat) \<le> 12 \<longrightarrow>
      annuity_mortgage 1000 0.12 1 ! (2 - 1) =
        standard_annuity_payment (0.12 / 12) 12 1000
          - INTEREST_DEDUCTIBLE
              * (0.12 / 12
                  * outstanding_balance (standard_annuity_payment (0.12 / 12) 12 1000)
                      (0.12 / 12) 1000 (2 - 1))"
    by (rule allE)
  moreover have "(2::nat) - 1 = 1" by simp
  ultimately have e: "annuity_mortgage 1000 0.12 1 ! 1 =
        standard_annuity_payment (0.12 / 12) 12 1000
          - INTEREST_DEDUCTIBLE
              * (0.12 / 12
                  * outstanding_balance (standard_annuity_payment (0.12 / 12) 12 1000)
                      (0.12 / 12) 1000 1)"
    by simp
  from len have l: "length (annuity_mortgage 1000 0.12 1) = 12" by simp
  from h l P e show ?thesis by blast
qed

end
